theory Spec2Isabelle
  imports Complex_Main
begin

section \<open>Data model of the booking service\<close>

text \<open>
  The booking service (\<^verbatim>\<open>services/booking-service/src/routes/bookings.js\<close>) owns the
  Booking collection and talks to the event service over HTTP: \<^verbatim>\<open>axios.get\<close> reads an
  event, \<^verbatim>\<open>axios.patch\<close> on \<^verbatim>\<open>/api/events/:id/seats\<close> sends \<^verbatim>\<open>{seatsToBook}\<close>.
  Status strings are datatypes, a Mongoose document is a record, JavaScript numbers
  are integers, an absent (\<^verbatim>\<open>undefined\<close>) value is \<open>None\<close>.
\<close>

datatype bookingStatus = Pending | Confirmed | Waitlisted | Cancelled

datatype paymentStatus = PaymentPending | Completed | Failed | Refunded

text \<open>\<^verbatim>\<open>TXN${Date.now()}${Math.floor(Math.random() * 10000)}\<close>: the clock and the suffix.\<close>

datatype transactionId = TXN int int

record event =
  ev_id :: string
  title :: string
  date :: int
  venue :: string
  time :: string
  price :: int
  status :: string
  availableSeats :: int

record booking =
  b_id :: string
  bookingReference :: string
  userId :: string
  userName :: string
  userEmail :: string
  eventId :: string
  eventTitle :: string
  eventDate :: int
  eventVenue :: string
  eventTime :: string
  numberOfTickets :: int
  pricePerTicket :: int
  paymentMethod :: string
  bookingStatus :: bookingStatus
  paymentStatus :: paymentStatus
  transactionId :: "transactionId option"
  createdAt :: int

record user =
  u_id :: string
  u_name :: string
  u_email :: string
  u_role :: string

text \<open>The body of \<^verbatim>\<open>POST /api/bookings\<close>; a missing field is \<open>None\<close>.\<close>

record request =
  reqEventId :: "string option"
  reqNumberOfTickets :: "int option"
  reqPaymentMethod :: "string option"
  reqJoinWaitlist :: bool

section \<open>The collaborators\<close>

text \<open>
  What \<^verbatim>\<open>axios.patch\<close> on the seats endpoint gives back: the promise rejects (a
  non-2xx status or a network error), or it resolves and \<^verbatim>\<open>data?.availableSeats\<close>
  is a number or is absent.
\<close>

datatype patchReply = Rejected | Resolved "int option"

text \<open>
  The event service is not part of the booking service: its state \<open>'l\<close> and its two
  endpoints are parameters of the model. \<open>getEvent\<close> is \<open>None\<close> when
  \<^verbatim>\<open>axios.get\<close> rejects.
\<close>

record 'l eventService =
  getEvent :: "'l \<Rightarrow> string \<Rightarrow> event option"
  patchSeats :: "'l \<Rightarrow> string \<Rightarrow> int \<Rightarrow> 'l \<times> patchReply"

text \<open>
  What the runtime supplies during one request: the clock (\<^verbatim>\<open>Date.now()\<close>,
  \<^verbatim>\<open>new Date()\<close>), the successive results of \<^verbatim>\<open>Math.random()\<close>, and the
  \<^verbatim>\<open>_id\<close> and reference that the Booking model gives a new document.
\<close>

record runtime =
  dateNow :: int
  random :: "nat \<Rightarrow> real"
  freshId :: string
  freshReference :: string

text \<open>
  The world a handler runs in: the event service's state, the Booking collection in
  insertion order, and how many \<^verbatim>\<open>Math.random()\<close> results have been consumed.
\<close>

record 'l world =
  ledger :: 'l
  bookings :: "booking list"
  draws :: nat

text \<open>
  What a handler does to the outside, in order. Modelled from the spec:
  \<^verbatim>\<open>utils/email.js\<close> is not among the sources; notification failures are swallowed by
  the sink, so \<^verbatim>\<open>sendBookingEmail\<close> and \<^verbatim>\<open>sendWaitlistEmail\<close> are effects that never throw.
\<close>

datatype effect =
    HttpGetEvent string
  | HttpPatchSeats string int patchReply
  | SaveBooking booking
  | SendBookingEmail string
  | SendWaitlistEmail string
  | ConsoleError string

text \<open>The JSON bodies the two handlers answer with; a response is a status and a body.\<close>

datatype body =
    ErrorBody string
  | NotEnoughSeatsBody int int
  | WaitlistedBody string bookingStatus string int string int
  | PaymentFailedBody string
  | SeatUpdateFailedBody
  | ConfirmedBody string string int string int int paymentStatus "transactionId option" bookingStatus
  | CancelledBody string bookingStatus paymentStatus int

type_synonym response = "nat \<times> body"

section \<open>The Booking collection\<close>

text \<open>
  \<^verbatim>\<open>Booking.findById\<close>, and \<^verbatim>\<open>save()\<close>: on a new document it inserts, on a loaded one
  it replaces the stored document of that \<^verbatim>\<open>_id\<close>. The collection itself is taken to
  be reliable.
\<close>

definition findById :: "string \<Rightarrow> booking list \<Rightarrow> booking option" where
  "findById i bs = find (\<lambda>b. b_id b = i) bs"

definition insertBooking :: "booking \<Rightarrow> booking list \<Rightarrow> booking list" where
  "insertBooking b bs = bs @ [b]"

definition updateBooking :: "booking \<Rightarrow> booking list \<Rightarrow> booking list" where
  "updateBooking b bs = map (\<lambda>x. if b_id x = b_id b then b else x) bs"

text \<open>
  \<^verbatim>\<open>Booking.find({eventId, bookingStatus: 'waitlisted'}).sort({createdAt: 1})\<close>, with
  documents of equal \<^verbatim>\<open>createdAt\<close> kept in insertion order.
\<close>

definition waitlistedBookings :: "string \<Rightarrow> booking list \<Rightarrow> booking list" where
  "waitlistedBookings eid bs =
     sort_key createdAt (filter (\<lambda>b. eventId b = eid \<and> bookingStatus b = Waitlisted) bs)"

text \<open>
  Modelled from the spec: \<^verbatim>\<open>models/Booking.js\<close> is not among the sources; the spec gives
  \<open>totalAmount = numberOfTickets * pricePerTicket\<close>.
\<close>

definition totalAmount :: "booking \<Rightarrow> int" where
  "totalAmount b = numberOfTickets b * pricePerTicket b"

section \<open>The engine\<close>

definition generateTransactionId :: "runtime \<Rightarrow> 'l world \<Rightarrow> transactionId \<times> 'l world" where
  "generateTransactionId rt w =
     (TXN (dateNow rt) \<lfloor>random rt (draws w) * 10000\<rfloor>, w\<lparr>draws := draws w + 1\<rparr>)"

text \<open>
  The \<^verbatim>\<open>for\<close> loop of \<^verbatim>\<open>promoteWaitlistIfPossible\<close> over the loaded candidates, with the
  local counter \<^verbatim>\<open>availableSeats\<close>. The first component of the result says whether the
  loop threw (a rejected \<^verbatim>\<open>axios.patch\<close>); what was saved before the throw stays saved.
\<close>

fun promoteLoop ::
  "'l eventService \<Rightarrow> runtime \<Rightarrow> string \<Rightarrow> int \<Rightarrow> booking list \<Rightarrow> 'l world
     \<Rightarrow> bool \<times> 'l world \<times> effect list" where
  "promoteLoop es rt eid seats [] w = (False, w, [])"
| "promoteLoop es rt eid seats (waitlisted # rest) w =
     (if seats < numberOfTickets waitlisted then (False, w, [])
      else
        let (txn, w1) = generateTransactionId rt w;
            promoted = waitlisted\<lparr>bookingStatus := Confirmed, paymentStatus := Completed,
                                  transactionId := Some txn\<rparr>;
            w2 = w1\<lparr>bookings := updateBooking promoted (bookings w1)\<rparr>;
            seats' = seats - numberOfTickets promoted;
            (l', reply) = patchSeats es (ledger w2) eid (numberOfTickets promoted);
            w3 = w2\<lparr>ledger := l'\<rparr>;
            fx = [SaveBooking promoted, HttpPatchSeats eid (numberOfTickets promoted) reply]
        in case reply of
             Rejected \<Rightarrow> (True, w3, fx)
           | Resolved r \<Rightarrow>
               (case promoteLoop es rt eid seats' rest w3 of
                  (threw, w', fx') \<Rightarrow>
                    (threw, w', fx @ [SendBookingEmail (bookingReference promoted)] @ fx')))"

text \<open>Line 17: the starting value of the local counter.\<close>

definition startingSeats :: "int option \<Rightarrow> event \<Rightarrow> int" where
  "startingSeats availableSeatsHint ev =
     (case availableSeatsHint of Some h \<Rightarrow> h | None \<Rightarrow> availableSeats ev)"

text \<open>
  \<^verbatim>\<open>promoteWaitlistIfPossible\<close>: the event fetch, the early return, the query and the
  loop, inside the \<^verbatim>\<open>try\<close> whose \<^verbatim>\<open>catch\<close> only logs.
\<close>

definition promoteWaitlistIfPossible ::
  "'l eventService \<Rightarrow> runtime \<Rightarrow> string \<Rightarrow> int option \<Rightarrow> 'l world \<Rightarrow> 'l world \<times> effect list" where
  "promoteWaitlistIfPossible es rt eid availableSeatsHint w =
     (case getEvent es (ledger w) eid of
        None \<Rightarrow> (w, [HttpGetEvent eid, ConsoleError ''Waitlist promotion failed:''])
      | Some ev \<Rightarrow>
          let seats = startingSeats availableSeatsHint ev in
          if seats \<le> 0 then (w, [HttpGetEvent eid])
          else
            (case promoteLoop es rt eid seats (waitlistedBookings eid (bookings w)) w of
               (threw, w', fx) \<Rightarrow>
                 (w', HttpGetEvent eid # fx @
                      (if threw then [ConsoleError ''Waitlist promotion failed:''] else []))))"

text \<open>
  \<^verbatim>\<open>new Booking({...})\<close> in the create handler, before either status is set. Modelled
  from the spec: \<^verbatim>\<open>models/Booking.js\<close> is not among the sources; a new booking starts
  pending with payment pending and no transaction id, and is stamped with the clock.
  The handler sets both statuses before every save.
\<close>

definition newBooking :: "runtime \<Rightarrow> user \<Rightarrow> event \<Rightarrow> int \<Rightarrow> string option \<Rightarrow> booking" where
  "newBooking rt usr ev n pm =
     \<lparr> b_id = freshId rt, bookingReference = freshReference rt,
       userId = u_id usr, userName = u_name usr, userEmail = u_email usr,
       eventId = ev_id ev, eventTitle = title ev, eventDate = date ev,
       eventVenue = venue ev, eventTime = time ev,
       numberOfTickets = n, pricePerTicket = price ev,
       paymentMethod = (case pm of None \<Rightarrow> ''credit_card''
                        | Some m \<Rightarrow> if m = [] then ''credit_card'' else m),
       bookingStatus = Pending, paymentStatus = PaymentPending,
       transactionId = None, createdAt = dateNow rt \<rparr>"

text \<open>\<^verbatim>\<open>!eventId || !numberOfTickets\<close>: absent, the empty string and zero are falsy.\<close>

definition missingFields :: "request \<Rightarrow> bool" where
  "missingFields req =
     (reqEventId req = None \<or> reqEventId req = Some [] \<or>
      reqNumberOfTickets req = None \<or> reqNumberOfTickets req = Some 0)"

text \<open>\<^verbatim>\<open>router.post('/')\<close>, from the payment draw on (lines 121 to 165).\<close>

definition payAndConfirm ::
  "'l eventService \<Rightarrow> runtime \<Rightarrow> string \<Rightarrow> int \<Rightarrow> booking \<Rightarrow> 'l world
     \<Rightarrow> 'l world \<times> effect list \<times> response" where
  "payAndConfirm es rt eid n booking w =
     (let paymentSuccess = (random rt (draws w) > 1 / 10);
          w1 = w\<lparr>draws := draws w + 1\<rparr>
      in if \<not> paymentSuccess then
           let b = booking\<lparr>paymentStatus := Failed, bookingStatus := Pending\<rparr> in
           (w1\<lparr>bookings := insertBooking b (bookings w1)\<rparr>,
            [SaveBooking b],
            (400, PaymentFailedBody (bookingReference b)))
         else
           let (txn, w2) = generateTransactionId rt w1;
               b = booking\<lparr>paymentStatus := Completed, bookingStatus := Confirmed,
                           transactionId := Some txn\<rparr>;
               (l', reply) = patchSeats es (ledger w2) eid n;
               w3 = w2\<lparr>ledger := l'\<rparr>
           in case reply of
                Rejected \<Rightarrow> (w3, [HttpPatchSeats eid n reply], (500, SeatUpdateFailedBody))
              | Resolved r \<Rightarrow>
                  (w3\<lparr>bookings := insertBooking b (bookings w3)\<rparr>,
                   [HttpPatchSeats eid n reply, SaveBooking b,
                    SendBookingEmail (bookingReference b)],
                   (201, ConfirmedBody (bookingReference b) (eventTitle b) (eventDate b)
                           (eventVenue b) (numberOfTickets b) (totalAmount b)
                           (paymentStatus b) (transactionId b) (bookingStatus b))))"

text \<open>
  \<^verbatim>\<open>router.post('/')\<close>: create a booking or a waitlist entry. Past the first check
  both fields are present, so the last case of the \<open>case\<close> is never taken. The seats
  call uses the request's \<^verbatim>\<open>eventId\<close>, the document the event's \<^verbatim>\<open>_id\<close>.
\<close>

definition createBooking ::
  "'l eventService \<Rightarrow> runtime \<Rightarrow> user \<Rightarrow> request \<Rightarrow> 'l world
     \<Rightarrow> 'l world \<times> effect list \<times> response" where
  "createBooking es rt usr req w =
     (if missingFields req then
        (w, [], (400, ErrorBody ''Event ID and number of tickets are required''))
      else
        case (reqEventId req, reqNumberOfTickets req) of
          (Some eid, Some n) \<Rightarrow>
            (case getEvent es (ledger w) eid of
               None \<Rightarrow> (w, [HttpGetEvent eid], (404, ErrorBody ''Event not found''))
             | Some ev \<Rightarrow>
                 if status ev = ''cancelled'' then
                   (w, [HttpGetEvent eid], (400, ErrorBody ''Event has been cancelled''))
                 else if date ev < dateNow rt then
                   (w, [HttpGetEvent eid],
                    (400, ErrorBody ''Cannot book tickets for past events''))
                 else
                   let shouldWaitlist = (availableSeats ev < n) in
                   if shouldWaitlist \<and> \<not> reqJoinWaitlist req then
                     (w, [HttpGetEvent eid], (400, NotEnoughSeatsBody (availableSeats ev) n))
                   else
                     let booking = newBooking rt usr ev n (reqPaymentMethod req) in
                     if shouldWaitlist then
                       let b = booking\<lparr>bookingStatus := Waitlisted,
                                       paymentStatus := PaymentPending\<rparr> in
                       (w\<lparr>bookings := insertBooking b (bookings w)\<rparr>,
                        [HttpGetEvent eid, SaveBooking b,
                         SendWaitlistEmail (bookingReference b)],
                        (202, WaitlistedBody (bookingReference b) (bookingStatus b)
                                (eventTitle b) (eventDate b) (eventVenue b)
                                (numberOfTickets b)))
                     else
                       (case payAndConfirm es rt eid n booking w of
                          (w', fx, resp) \<Rightarrow> (w', HttpGetEvent eid # fx, resp)))
        | _ \<Rightarrow> (w, [], (400, ErrorBody ''Event ID and number of tickets are required'')))"

text \<open>\<^verbatim>\<open>router.patch('/:id/cancel')\<close>, lines 322 to 332: the seat restoration.\<close>

definition restoreSeats ::
  "'l eventService \<Rightarrow> booking \<Rightarrow> 'l world \<Rightarrow> int option \<times> 'l world \<times> effect list" where
  "restoreSeats es booking w =
     (let (l', reply) = patchSeats es (ledger w) (eventId booking) (- numberOfTickets booking);
          w1 = w\<lparr>ledger := l'\<rparr>;
          call = HttpPatchSeats (eventId booking) (- numberOfTickets booking) reply
      in case reply of
           Resolved r \<Rightarrow> (r, w1, [call])
         | Rejected \<Rightarrow> (None, w1, [call, ConsoleError ''Failed to restore event seats:'']))"

text \<open>
  \<^verbatim>\<open>router.patch('/:id/cancel')\<close>: cancel a booking. The promotion pass is called
  when \<^verbatim>\<open>restoredAvailability !== undefined\<close>.
\<close>

definition cancelBooking ::
  "'l eventService \<Rightarrow> runtime \<Rightarrow> user \<Rightarrow> string \<Rightarrow> 'l world
     \<Rightarrow> 'l world \<times> effect list \<times> response" where
  "cancelBooking es rt usr i w =
     (case findById i (bookings w) of
        None \<Rightarrow> (w, [], (404, ErrorBody ''Booking not found''))
      | Some found \<Rightarrow>
          if userId found \<noteq> u_id usr \<and> u_role usr \<noteq> ''admin'' then
            (w, [], (403, ErrorBody ''Access denied''))
          else if bookingStatus found = Cancelled then
            (w, [], (400, ErrorBody ''Booking is already cancelled''))
          else if eventDate found < dateNow rt then
            (w, [], (400, ErrorBody ''Cannot cancel booking for past events''))
          else
            let wasConfirmed = (bookingStatus found = Confirmed);
                booking = found\<lparr>bookingStatus := Cancelled,
                                paymentStatus := (if paymentStatus found = Completed
                                                  then Refunded else paymentStatus found)\<rparr>;
                w1 = w\<lparr>bookings := updateBooking booking (bookings w)\<rparr>;
                (restoredAvailability, w2, fx2) =
                   (if wasConfirmed then restoreSeats es booking w1 else (None, w1, []));
                (w3, fx3) =
                   (case restoredAvailability of
                      None \<Rightarrow> (w2, [])
                    | Some a \<Rightarrow> promoteWaitlistIfPossible es rt (eventId booking) (Some a) w2)
            in (w3, SaveBooking booking # fx2 @ fx3,
                (200, CancelledBody (bookingReference booking) (bookingStatus booking)
                        (paymentStatus booking) (totalAmount booking))))"

section \<open>Reading a run\<close>

text \<open>The seat deltas a run sent, and the documents it saved, in order.\<close>

fun deltas :: "effect list \<Rightarrow> (string \<times> int) list" where
  "deltas [] = []"
| "deltas (HttpPatchSeats eid d r # fx) = (eid, d) # deltas fx"
| "deltas (e # fx) = deltas fx"

fun saved :: "effect list \<Rightarrow> booking list" where
  "saved [] = []"
| "saved (SaveBooking b # fx) = b # saved fx"
| "saved (e # fx) = saved fx"

text \<open>The deltas the seats endpoint accepted (the call resolved).\<close>

fun applied :: "effect list \<Rightarrow> (string \<times> int) list" where
  "applied [] = []"
| "applied (HttpPatchSeats eid d (Resolved r) # fx) = (eid, d) # applied fx"
| "applied (e # fx) = applied fx"

text \<open>The event lookups a run made.\<close>

fun lookups :: "effect list \<Rightarrow> string list" where
  "lookups [] = []"
| "lookups (HttpGetEvent eid # fx) = eid # lookups fx"
| "lookups (e # fx) = lookups fx"

text \<open>The three parts of a handler's result.\<close>

definition worldOf :: "'l world \<times> effect list \<times> response \<Rightarrow> 'l world" where
  "worldOf run = fst run"

definition effectsOf :: "'l world \<times> effect list \<times> response \<Rightarrow> effect list" where
  "effectsOf run = fst (snd run)"

definition responseOf :: "'l world \<times> effect list \<times> response \<Rightarrow> response" where
  "responseOf run = snd (snd run)"

text \<open>The \<^verbatim>\<open>bookingReference\<close> a response body carries, if it has one.\<close>

fun bodyReference :: "body \<Rightarrow> string option" where
  "bodyReference (WaitlistedBody ref st t d v n) = Some ref"
| "bodyReference (PaymentFailedBody ref) = Some ref"
| "bodyReference (ConfirmedBody ref t d v n a ps tx st) = Some ref"
| "bodyReference (CancelledBody ref st ps a) = Some ref"
| "bodyReference (ErrorBody e) = None"
| "bodyReference (NotEnoughSeatsBody a r) = None"
| "bodyReference SeatUpdateFailedBody = None"

section \<open>A scripted event service\<close>

text \<open>
  For concrete runs: one event, and the seats endpoint answering from a script, one
  reply per call (a rejection once the script is used up), as the mocked \<^verbatim>\<open>axios\<close> of
  the repository's tests does.
\<close>

definition scripted :: "event \<Rightarrow> (patchReply list) eventService" where
  "scripted ev =
     \<lparr> getEvent = (\<lambda>l eid. if eid = ev_id ev then Some ev else None),
       patchSeats = (\<lambda>l eid d. case l of [] \<Rightarrow> ([], Rejected) | r # rs \<Rightarrow> (rs, r)) \<rparr>"

definition concert :: event where
  "concert = \<lparr> ev_id = ''e1'', title = ''Concert'', date = 100, venue = ''Hall'',
               time = ''19:00'', price = 20, status = ''upcoming'', availableSeats = 5 \<rparr>"

definition alice :: user where
  "alice = \<lparr> u_id = ''u1'', u_name = ''Alice'', u_email = ''a@x'', u_role = ''user'' \<rparr>"

definition rt0 :: runtime where
  "rt0 = \<lparr> dateNow = 10, random = (\<lambda>k. 1 / 2), freshId = ''b9'', freshReference = ''BK9'' \<rparr>"

definition mkBooking :: "string \<Rightarrow> int \<Rightarrow> bookingStatus \<Rightarrow> int \<Rightarrow> booking" where
  "mkBooking i n st t =
     \<lparr> b_id = i, bookingReference = ''BK'' @ i, userId = ''u1'', userName = ''Alice'',
       userEmail = ''a@x'', eventId = ''e1'', eventTitle = ''Concert'', eventDate = 100,
       eventVenue = ''Hall'', eventTime = ''19:00'', numberOfTickets = n,
       pricePerTicket = 20, paymentMethod = ''credit_card'', bookingStatus = st,
       paymentStatus = (if st = Confirmed then Completed else PaymentPending),
       transactionId = (if st = Confirmed then Some (TXN 1 1) else None), createdAt = t \<rparr>"

definition ticketRequest :: "int option \<Rightarrow> bool \<Rightarrow> request" where
  "ticketRequest n j =
     \<lparr> reqEventId = Some ''e1'', reqNumberOfTickets = n, reqPaymentMethod = None,
       reqJoinWaitlist = j \<rparr>"

definition world0 :: "patchReply list \<Rightarrow> booking list \<Rightarrow> (patchReply list) world" where
  "world0 script bs = \<lparr> ledger = script, bookings = bs, draws = 0 \<rparr>"

definition fullHouse :: "(patchReply list) world" where
  "fullHouse = world0 [Resolved (Some 5), Resolved (Some 2), Resolved (Some 0)]
                 [mkBooking ''b1'' 5 Confirmed 1, mkBooking ''b2'' 3 Waitlisted 2,
                  mkBooking ''b3'' 2 Waitlisted 3]"

definition blockedQueue :: "(patchReply list) world" where
  "blockedQueue = world0 [Resolved (Some 4)]
                    [mkBooking ''b3'' 1 Waitlisted 3, mkBooking ''b2'' 6 Waitlisted 2]"

definition outage :: "(patchReply list) world" where
  "outage = world0 [Resolved (Some 5), Rejected]
              [mkBooking ''b1'' 5 Confirmed 1, mkBooking ''b2'' 3 Waitlisted 2]"


lemmas run_defs =
  createBooking_def missingFields_def payAndConfirm_def generateTransactionId_def
  newBooking_def cancelBooking_def restoreSeats_def promoteWaitlistIfPossible_def
  startingSeats_def waitlistedBookings_def findById_def insertBooking_def
  updateBooking_def totalAmount_def worldOf_def effectsOf_def responseOf_def
  scripted_def concert_def alice_def rt0_def mkBooking_def ticketRequest_def world0_def
  Let_def

section \<open>Reading effects\<close>

lemma deltas_append: "deltas (xs @ ys) = deltas xs @ deltas ys"
  by (induction xs rule: deltas.induct) simp_all

lemma saved_append: "saved (xs @ ys) = saved xs @ saved ys"
  by (induction xs rule: saved.induct) simp_all

lemma lookups_append: "lookups (xs @ ys) = lookups xs @ lookups ys"
  by (induction xs rule: lookups.induct) simp_all

section \<open>Creating a booking\<close>

subsection \<open>The required-fields check\<close>

text \<open>
  C9 (as the code has it). A request whose \<^verbatim>\<open>numberOfTickets\<close> is missing or zero is
  answered 400 "Event ID and number of tickets are required" at once: the world is
  unchanged (nothing persisted, no \<^verbatim>\<open>Math.random()\<close> consumed) and no effect was
  produced (no event lookup, no seat delta).
\<close>

theorem create_requires_ticket_count:
  assumes "reqNumberOfTickets req = None \<or> reqNumberOfTickets req = Some 0"
  shows "createBooking es rt usr req w =
           (w, [], (400, ErrorBody ''Event ID and number of tickets are required''))"
  using assms by (simp add: createBooking_def missingFields_def)

theorem create_requires_ticket_count_witness:
  "(reqNumberOfTickets (ticketRequest (Some 0) False) = None \<or>
    reqNumberOfTickets (ticketRequest (Some 0) False) = Some 0) \<and>
   createBooking (scripted concert) rt0 alice (ticketRequest (Some 0) False)
       (world0 [Resolved (Some 5)] []) =
     (world0 [Resolved (Some 5)] [], [],
      (400, ErrorBody ''Event ID and number of tickets are required''))"
  using create_requires_ticket_count
          [of "ticketRequest (Some 0) False" "scripted concert" rt0 alice
              "world0 [Resolved (Some 5)] []"]
  by (simp add: ticketRequest_def)

text \<open>
  C9 as stated fails for a negative count: \<^verbatim>\<open>!numberOfTickets\<close> is false for \<open>-3\<close>, so
  the handler goes on to look the event up, and (5 seats are not fewer than \<open>-3\<close>, the
  payment draw succeeds) sends \<^verbatim>\<open>seatsToBook: -3\<close> to the seats endpoint.
\<close>

theorem create_negative_tickets_counterexample:
  "take 2 (effectsOf (createBooking (scripted concert) rt0 alice
                        (ticketRequest (Some (- 3)) False)
                        (world0 [Resolved (Some 8)] []))) =
     [HttpGetEvent ''e1'', HttpPatchSeats ''e1'' (- 3) (Resolved (Some 8))]"
  by (simp add: run_defs)

subsection \<open>Not enough seats\<close>

text \<open>
  C7. The event has fewer seats than requested and the caller did not opt into the
  waitlist. Then the request fails with status 400, the world is unchanged, nothing was
  saved and no seat delta was sent; and when the request has passed the checks that
  come first in the handler (fields present, event not cancelled, not in the past) the
  answer is "Not enough seats available" carrying the event's \<^verbatim>\<open>availableSeats\<close> and the
  requested count, after the event lookup alone.
\<close>

theorem create_shortage_without_waitlist:
  assumes "reqEventId req = Some eid"
    and "reqNumberOfTickets req = Some n"
    and "getEvent es (ledger w) eid = Some ev"
    and "availableSeats ev < n"
    and "\<not> reqJoinWaitlist req"
  shows "worldOf (createBooking es rt usr req w) = w \<and>
         saved (effectsOf (createBooking es rt usr req w)) = [] \<and>
         deltas (effectsOf (createBooking es rt usr req w)) = [] \<and>
         fst (responseOf (createBooking es rt usr req w)) = 400 \<and>
         (eid \<noteq> [] \<and> n \<noteq> 0 \<and> status ev \<noteq> ''cancelled'' \<and> \<not> date ev < dateNow rt \<longrightarrow>
            createBooking es rt usr req w =
              (w, [HttpGetEvent eid], (400, NotEnoughSeatsBody (availableSeats ev) n)))"
  using assms
  by (simp add: createBooking_def missingFields_def worldOf_def effectsOf_def responseOf_def
        Let_def)

theorem create_shortage_without_waitlist_witness:
  "reqEventId (ticketRequest (Some 7) False) = Some ''e1'' \<and>
   reqNumberOfTickets (ticketRequest (Some 7) False) = Some 7 \<and>
   getEvent (scripted concert) (ledger (world0 [Resolved (Some 0)] [])) ''e1'' = Some concert \<and>
   availableSeats concert < 7 \<and>
   \<not> reqJoinWaitlist (ticketRequest (Some 7) False) \<and>
   ''e1'' \<noteq> [] \<and> (7::int) \<noteq> 0 \<and> status concert \<noteq> ''cancelled'' \<and>
   \<not> date concert < dateNow rt0 \<and>
   createBooking (scripted concert) rt0 alice (ticketRequest (Some 7) False)
       (world0 [Resolved (Some 0)] []) =
     (world0 [Resolved (Some 0)] [], [HttpGetEvent ''e1''], (400, NotEnoughSeatsBody 5 7))"
  using create_shortage_without_waitlist
          [of "ticketRequest (Some 7) False" "''e1''" 7 "scripted concert"
              "world0 [Resolved (Some 0)] []" concert rt0 alice]
  by (simp add: ticketRequest_def scripted_def concert_def world0_def rt0_def)

text \<open>
  C8. Same shortage, but the caller opted into the waitlist (and the request has passed
  the checks that come first). Exactly one document is added to the collection; it is
  waitlisted with payment pending and has no transaction id. The effects are the event
  lookup, the save and the waitlist email: no seat delta. No \<^verbatim>\<open>Math.random()\<close> result
  was consumed, so no payment was attempted. The answer is 202 with the reduced
  projection: reference, status, the event's title, date and venue, ticket count.
\<close>

theorem create_shortage_with_waitlist:
  assumes "reqEventId req = Some eid" and "eid \<noteq> []"
    and "reqNumberOfTickets req = Some n" and "n \<noteq> 0"
    and "getEvent es (ledger w) eid = Some ev"
    and "status ev \<noteq> ''cancelled''" and "\<not> date ev < dateNow rt"
    and "availableSeats ev < n"
    and "reqJoinWaitlist req"
    and "b = (newBooking rt usr ev n (reqPaymentMethod req))
               \<lparr>bookingStatus := Waitlisted, paymentStatus := PaymentPending\<rparr>"
  shows "createBooking es rt usr req w =
           (w\<lparr>bookings := bookings w @ [b]\<rparr>,
            [HttpGetEvent eid, SaveBooking b, SendWaitlistEmail (bookingReference b)],
            (202, WaitlistedBody (bookingReference b) Waitlisted (title ev) (date ev)
                    (venue ev) n)) \<and>
         bookingStatus b = Waitlisted \<and> paymentStatus b = PaymentPending \<and>
         transactionId b = None \<and> numberOfTickets b = n \<and>
         draws (worldOf (createBooking es rt usr req w)) = draws w \<and>
         ledger (worldOf (createBooking es rt usr req w)) = ledger w \<and>
         deltas (effectsOf (createBooking es rt usr req w)) = []"
  using assms
  by (simp add: createBooking_def missingFields_def worldOf_def effectsOf_def responseOf_def
        newBooking_def insertBooking_def Let_def)

theorem create_shortage_with_waitlist_witness:
  "reqEventId (ticketRequest (Some 7) True) = Some ''e1'' \<and> ''e1'' \<noteq> [] \<and>
   reqNumberOfTickets (ticketRequest (Some 7) True) = Some 7 \<and> (7::int) \<noteq> 0 \<and>
   getEvent (scripted concert) (ledger (world0 [] [])) ''e1'' = Some concert \<and>
   status concert \<noteq> ''cancelled'' \<and> \<not> date concert < dateNow rt0 \<and>
   availableSeats concert < 7 \<and> reqJoinWaitlist (ticketRequest (Some 7) True) \<and>
   map bookingStatus (bookings (worldOf (createBooking (scripted concert) rt0 alice
          (ticketRequest (Some 7) True) (world0 [] [])))) = [Waitlisted] \<and>
   map transactionId (bookings (worldOf (createBooking (scripted concert) rt0 alice
          (ticketRequest (Some 7) True) (world0 [] [])))) = [None] \<and>
   responseOf (createBooking (scripted concert) rt0 alice
          (ticketRequest (Some 7) True) (world0 [] [])) =
     (202, WaitlistedBody ''BK9'' Waitlisted ''Concert'' 100 ''Hall'' 7)"
  using create_shortage_with_waitlist
          [of "ticketRequest (Some 7) True" "''e1''" 7 "scripted concert" "world0 [] []"
              concert rt0
              "(newBooking rt0 alice concert 7 None)
                 \<lparr>bookingStatus := Waitlisted, paymentStatus := PaymentPending\<rparr>" alice]
  by (simp add: ticketRequest_def scripted_def concert_def world0_def rt0_def
        newBooking_def worldOf_def responseOf_def)

subsection \<open>The seats endpoint rejects the delta\<close>

lemma payAndConfirm_rejected:
  assumes "payAndConfirm es rt eid n booking w = (w', fx, resp)"
    and "HttpPatchSeats e d Rejected \<in> set fx"
  shows "bookings w' = bookings w \<and> fx = [HttpPatchSeats eid n Rejected] \<and>
         resp = (500, SeatUpdateFailedBody) \<and> random rt (draws w) > 1 / 10"
  using assms
  by (auto simp: payAndConfirm_def generateTransactionId_def Let_def
           split: if_splits prod.splits patchReply.splits)

lemma createBooking_rejected:
  assumes "HttpPatchSeats e d Rejected \<in> set (effectsOf (createBooking es rt usr req w))"
  shows "bookings (worldOf (createBooking es rt usr req w)) = bookings w \<and>
         effectsOf (createBooking es rt usr req w) =
           [HttpGetEvent e, HttpPatchSeats e d Rejected] \<and>
         responseOf (createBooking es rt usr req w) = (500, SeatUpdateFailedBody) \<and>
         random rt (draws w) > 1 / 10"
proof -
  obtain w' fx resp where run: "createBooking es rt usr req w = (w', fx, resp)"
    by (cases "createBooking es rt usr req w") auto
  with assms have mem: "HttpPatchSeats e d Rejected \<in> set fx"
    by (simp add: effectsOf_def)
  from run mem obtain eid n booking fx' where
    pay: "payAndConfirm es rt eid n booking w = (w', fx', resp)"
    and fx: "fx = HttpGetEvent eid # fx'"
    by (auto simp: createBooking_def Let_def split: if_splits prod.splits option.splits)
  from mem fx have mem': "HttpPatchSeats e d Rejected \<in> set fx'"
    by simp
  from payAndConfirm_rejected[OF pay mem'] mem' fx run show ?thesis
    by (auto simp: worldOf_def effectsOf_def responseOf_def)
qed

text \<open>
  C4. Whenever a run of the create handler had its seat delta rejected by the seats
  endpoint, the payment draw had succeeded, the collection is as it was (so no booking
  is persisted as confirmed), the run did nothing but the event lookup and the
  rejected call (no save, no confirmation email), and the answer is status 500 with
  "Failed to update event seats": not the 400 of the validation answers.
\<close>

theorem create_ledger_rejection_not_confirmed:
  assumes "HttpPatchSeats e d Rejected \<in> set (effectsOf (createBooking es rt usr req w))"
  shows "random rt (draws w) > 1 / 10 \<and>
         bookings (worldOf (createBooking es rt usr req w)) = bookings w \<and>
         effectsOf (createBooking es rt usr req w) =
           [HttpGetEvent e, HttpPatchSeats e d Rejected] \<and>
         responseOf (createBooking es rt usr req w) = (500, SeatUpdateFailedBody) \<and>
         fst (responseOf (createBooking es rt usr req w)) \<noteq> 400"
  using createBooking_rejected[OF assms] by simp

theorem create_ledger_rejection_not_confirmed_witness:
  "HttpPatchSeats ''e1'' 2 Rejected
     \<in> set (effectsOf (createBooking (scripted concert) rt0 alice
                          (ticketRequest (Some 2) False) (world0 [Rejected] []))) \<and>
   random rt0 (draws (world0 [Rejected] [])) > 1 / 10 \<and>
   bookings (worldOf (createBooking (scripted concert) rt0 alice
                        (ticketRequest (Some 2) False) (world0 [Rejected] []))) = [] \<and>
   responseOf (createBooking (scripted concert) rt0 alice
                 (ticketRequest (Some 2) False) (world0 [Rejected] [])) =
     (500, SeatUpdateFailedBody)"
  using create_ledger_rejection_not_confirmed
          [of "''e1''" 2 "scripted concert" rt0 alice "ticketRequest (Some 2) False"
              "world0 [Rejected] []"]
  by (simp add: run_defs)

text \<open>
  C10. On the rejected seat delta nothing at all is persisted (the collection is
  unchanged and the run saved no document, not even a pending one) and the answer
  carries no booking reference. When instead the payment draw fails (on a request
  that has passed the earlier checks and needs no waitlist), one document is
  inserted, pending with payment failed, and the 400 answer carries its reference.
\<close>

theorem create_ledger_rejection_persists_nothing:
  "(HttpPatchSeats e d Rejected \<in> set (effectsOf (createBooking es rt usr req w)) \<longrightarrow>
      bookings (worldOf (createBooking es rt usr req w)) = bookings w \<and>
      saved (effectsOf (createBooking es rt usr req w)) = [] \<and>
      bodyReference (snd (responseOf (createBooking es rt usr req w))) = None) \<and>
   (reqEventId req' = Some eid \<and> eid \<noteq> [] \<and> reqNumberOfTickets req' = Some n \<and> n \<noteq> 0 \<and>
    getEvent es' (ledger w') eid = Some ev \<and> status ev \<noteq> ''cancelled'' \<and>
    \<not> date ev < dateNow rt' \<and> \<not> availableSeats ev < n \<and>
    \<not> random rt' (draws w') > 1 / 10 \<and>
    b = (newBooking rt' usr' ev n (reqPaymentMethod req'))
          \<lparr>paymentStatus := Failed, bookingStatus := Pending\<rparr> \<longrightarrow>
      bookings (worldOf (createBooking es' rt' usr' req' w')) = bookings w' @ [b] \<and>
      saved (effectsOf (createBooking es' rt' usr' req' w')) = [b] \<and>
      deltas (effectsOf (createBooking es' rt' usr' req' w')) = [] \<and>
      responseOf (createBooking es' rt' usr' req' w') =
        (400, PaymentFailedBody (bookingReference b)) \<and>
      bodyReference (snd (responseOf (createBooking es' rt' usr' req' w'))) =
        Some (bookingReference b))"
proof (intro conjI impI)
  assume "HttpPatchSeats e d Rejected \<in> set (effectsOf (createBooking es rt usr req w))"
  from createBooking_rejected[OF this]
  show "bookings (worldOf (createBooking es rt usr req w)) = bookings w"
    and "saved (effectsOf (createBooking es rt usr req w)) = []"
    and "bodyReference (snd (responseOf (createBooking es rt usr req w))) = None"
    by simp_all
next
  assume h: "reqEventId req' = Some eid \<and> eid \<noteq> [] \<and> reqNumberOfTickets req' = Some n \<and>
    n \<noteq> 0 \<and> getEvent es' (ledger w') eid = Some ev \<and> status ev \<noteq> ''cancelled'' \<and>
    \<not> date ev < dateNow rt' \<and> \<not> availableSeats ev < n \<and>
    \<not> random rt' (draws w') > 1 / 10 \<and>
    b = (newBooking rt' usr' ev n (reqPaymentMethod req'))
          \<lparr>paymentStatus := Failed, bookingStatus := Pending\<rparr>"
  then have run: "createBooking es' rt' usr' req' w' =
      (w'\<lparr>draws := draws w' + 1, bookings := bookings w' @ [b]\<rparr>,
       [HttpGetEvent eid, SaveBooking b], (400, PaymentFailedBody (bookingReference b)))"
    by (simp add: createBooking_def missingFields_def payAndConfirm_def insertBooking_def
          Let_def)
  show "bookings (worldOf (createBooking es' rt' usr' req' w')) = bookings w' @ [b]"
    and "saved (effectsOf (createBooking es' rt' usr' req' w')) = [b]"
    and "deltas (effectsOf (createBooking es' rt' usr' req' w')) = []"
    and "responseOf (createBooking es' rt' usr' req' w') =
           (400, PaymentFailedBody (bookingReference b))"
    and "bodyReference (snd (responseOf (createBooking es' rt' usr' req' w'))) =
           Some (bookingReference b)"
    by (simp_all add: run worldOf_def effectsOf_def responseOf_def)
qed

theorem create_ledger_rejection_persists_nothing_witness:
  "HttpPatchSeats ''e1'' 2 Rejected
     \<in> set (effectsOf (createBooking (scripted concert) rt0 alice
                          (ticketRequest (Some 2) False) (world0 [Rejected] []))) \<and>
   bookings (worldOf (createBooking (scripted concert) rt0 alice
                        (ticketRequest (Some 2) False) (world0 [Rejected] []))) = [] \<and>
   bodyReference (snd (responseOf (createBooking (scripted concert) rt0 alice
                        (ticketRequest (Some 2) False) (world0 [Rejected] [])))) = None \<and>
   \<not> random (rt0\<lparr>random := \<lambda>k. 0\<rparr>) (draws (world0 [] [])) > 1 / 10 \<and>
   \<not> availableSeats concert < 2 \<and>
   map bookingStatus (bookings (worldOf (createBooking (scripted concert)
        (rt0\<lparr>random := \<lambda>k. 0\<rparr>) alice (ticketRequest (Some 2) False) (world0 [] [])))) =
     [Pending] \<and>
   map paymentStatus (bookings (worldOf (createBooking (scripted concert)
        (rt0\<lparr>random := \<lambda>k. 0\<rparr>) alice (ticketRequest (Some 2) False) (world0 [] [])))) =
     [Failed] \<and>
   responseOf (createBooking (scripted concert) (rt0\<lparr>random := \<lambda>k. 0\<rparr>) alice
                 (ticketRequest (Some 2) False) (world0 [] [])) =
     (400, PaymentFailedBody ''BK9'')"
  using create_ledger_rejection_persists_nothing
          [of "''e1''" 2 "scripted concert" rt0 alice "ticketRequest (Some 2) False"
              "world0 [Rejected] []"
              "ticketRequest (Some 2) False" "''e1''" 2 "scripted concert" "world0 [] []"
              concert "rt0\<lparr>random := \<lambda>k. 0\<rparr>"
              "(newBooking (rt0\<lparr>random := \<lambda>k. 0\<rparr>) alice concert 2 None)
                 \<lparr>paymentStatus := Failed, bookingStatus := Pending\<rparr>" alice]
  by (simp add: run_defs)

section \<open>The promotion loop and the collection\<close>

lemma promoteLoop_deltas:
  "promoteLoop es rt eid seats cs w = (t, w', fx) \<Longrightarrow>
     deltas fx = map (\<lambda>b. (eid, numberOfTickets b)) (saved fx)"
proof (induction cs arbitrary: seats w t w' fx)
  case Nil
  then show ?case by simp
next
  case (Cons c cs)
  then show ?case
    by (auto simp: Let_def generateTransactionId_def deltas_append saved_append
             split: if_splits prod.splits patchReply.splits)
qed

lemma promoteLoop_lookups:
  "promoteLoop es rt eid seats cs w = (t, w', fx) \<Longrightarrow> lookups fx = []"
proof (induction cs arbitrary: seats w t w' fx)
  case Nil
  then show ?case by simp
next
  case (Cons c cs)
  then show ?case
    by (auto simp: Let_def generateTransactionId_def lookups_append
             split: if_splits prod.splits patchReply.splits)
qed

lemma promoteLoop_saved_confirmed:
  "promoteLoop es rt eid seats cs w = (t, w', fx) \<Longrightarrow> b \<in> set (saved fx) \<Longrightarrow>
     bookingStatus b = Confirmed \<and> paymentStatus b = Completed \<and> transactionId b \<noteq> None"
proof (induction cs arbitrary: seats w t w' fx)
  case Nil
  then show ?case by simp
next
  case (Cons c cs)
  then show ?case
    by (auto simp: Let_def generateTransactionId_def saved_append
             split: if_splits prod.splits patchReply.splits)
qed

lemma promoteLoop_saved_prefix:
  "promoteLoop es rt eid seats cs w = (t, w', fx) \<Longrightarrow>
     map b_id (saved fx) = take (length (saved fx)) (map b_id cs)"
proof (induction cs arbitrary: seats w t w' fx)
  case Nil
  then show ?case by simp
next
  case (Cons c cs)
  then show ?case
    by (auto simp: Let_def generateTransactionId_def saved_append
             split: if_splits prod.splits patchReply.splits)
qed

lemma promoteLoop_blocked:
  "promoteLoop es rt eid seats (pre @ c # post) w = (t, w', fx) \<Longrightarrow>
   seats - sum_list (map numberOfTickets pre) < numberOfTickets c \<Longrightarrow>
     length (saved fx) \<le> length pre"
proof (induction pre arbitrary: seats w t w' fx)
  case Nil
  then show ?case by simp
next
  case (Cons p pre)
  then show ?case
    by (auto simp: Let_def generateTransactionId_def saved_append
             split: if_splits prod.splits patchReply.splits)
qed

lemma promoteLoop_bookings:
  "promoteLoop es rt eid seats cs w = (t, w', fx) \<Longrightarrow>
     bookings w' = foldl (\<lambda>bs b. updateBooking b bs) (bookings w) (saved fx)"
proof (induction cs arbitrary: seats w t w' fx)
  case Nil
  then show ?case by simp
next
  case (Cons c cs)
  then show ?case
    by (auto simp: Let_def generateTransactionId_def saved_append
             split: if_splits prod.splits patchReply.splits)
qed


lemma findById_updateBooking_other:
  "b_id s \<noteq> i \<Longrightarrow> findById i (updateBooking s bs) = findById i bs"
  by (induction bs) (auto simp: findById_def updateBooking_def)

lemma findById_updateBooking_same:
  "findById (b_id s) bs = Some b \<Longrightarrow> findById (b_id s) (updateBooking s bs) = Some s"
  by (induction bs) (auto simp: findById_def updateBooking_def split: if_splits)

lemma findById_foldl_updateBooking:
  "i \<notin> b_id ` set ss \<Longrightarrow>
     findById i (foldl (\<lambda>bs b. updateBooking b bs) bs ss) = findById i bs"
  by (induction ss arbitrary: bs) (auto simp: findById_updateBooking_other)

lemma findById_distinct:
  "distinct (map b_id bs) \<Longrightarrow> b \<in> set bs \<Longrightarrow> findById (b_id b) bs = Some b"
  by (induction bs) (auto simp: findById_def)

lemma findById_Some_id: "findById i bs = Some b \<Longrightarrow> b_id b = i \<and> b \<in> set bs"
  by (induction bs) (auto simp: findById_def split: if_splits)

lemma distinct_map_insort_key:
  "distinct (map g (insort_key f x xs)) = (g x \<notin> g ` set xs \<and> distinct (map g xs))"
  by (induction xs) (auto simp: set_insort_key)

lemma distinct_map_sort_key:
  "distinct (map g (sort_key f xs)) = distinct (map g xs)"
  by (induction xs) (auto simp: distinct_map_insort_key)

lemma waitlistedBookings_set:
  "set (waitlistedBookings eid bs) =
     {b \<in> set bs. eventId b = eid \<and> bookingStatus b = Waitlisted}"
  by (auto simp: waitlistedBookings_def)

lemma waitlistedBookings_sorted: "sorted (map createdAt (waitlistedBookings eid bs))"
  by (simp add: waitlistedBookings_def)

lemma waitlistedBookings_distinct:
  "distinct (map b_id bs) \<Longrightarrow> distinct (map b_id (waitlistedBookings eid bs))"
  by (simp add: waitlistedBookings_def distinct_map_sort_key distinct_map_filter)

text \<open>The pass as a whole, in terms of its loop.\<close>

lemma promote_cases:
  assumes "promoteWaitlistIfPossible es rt eid hint w = (w', fx)"
  obtains (idle) "w' = w" "saved fx = []" "deltas fx = []"
  | (loop) ev t fx' where "getEvent es (ledger w) eid = Some ev"
      "0 < startingSeats hint ev"
      "promoteLoop es rt eid (startingSeats hint ev) (waitlistedBookings eid (bookings w)) w
         = (t, w', fx')"
      "saved fx = saved fx'" "deltas fx = deltas fx'"
  using assms
  by (auto simp: promoteWaitlistIfPossible_def Let_def deltas_append saved_append
           split: option.splits if_splits prod.splits)

lemma promote_deltas:
  assumes "promoteWaitlistIfPossible es rt eid hint w = (w', fx)"
  shows "deltas fx = map (\<lambda>b. (eid, numberOfTickets b)) (saved fx)"
  using assms by (cases rule: promote_cases) (auto dest: promoteLoop_deltas)

lemma promote_saved_confirmed:
  assumes "promoteWaitlistIfPossible es rt eid hint w = (w', fx)" and "b \<in> set (saved fx)"
  shows "bookingStatus b = Confirmed"
  using assms by (cases rule: promote_cases) (auto dest: promoteLoop_saved_confirmed)

lemma promote_saved_prefix:
  assumes "promoteWaitlistIfPossible es rt eid hint w = (w', fx)"
  shows "map b_id (saved fx) =
           take (length (saved fx)) (map b_id (waitlistedBookings eid (bookings w)))"
  using assms by (cases rule: promote_cases) (auto dest: promoteLoop_saved_prefix)

lemma promote_bookings:
  assumes "promoteWaitlistIfPossible es rt eid hint w = (w', fx)"
  shows "bookings w' = foldl (\<lambda>bs b. updateBooking b bs) (bookings w) (saved fx)"
  using assms by (cases rule: promote_cases) (auto dest: promoteLoop_bookings)

lemma promote_blocked:
  assumes "promoteWaitlistIfPossible es rt eid hint w = (w', fx)"
    and "getEvent es (ledger w) eid = Some ev"
    and "waitlistedBookings eid (bookings w) = pre @ c # post"
    and "startingSeats hint ev - sum_list (map numberOfTickets pre) < numberOfTickets c"
  shows "length (saved fx) \<le> length pre"
  using assms by (cases rule: promote_cases) (auto dest: promoteLoop_blocked)

lemma promote_frame:
  assumes run: "promoteWaitlistIfPossible es rt eid hint w = (w', fx)"
    and i: "i \<notin> b_id ` set (waitlistedBookings eid (bookings w))"
  shows "findById i (bookings w') = findById i (bookings w)"
proof -
  have "set (map b_id (saved fx)) \<subseteq> set (map b_id (waitlistedBookings eid (bookings w)))"
    by (subst promote_saved_prefix[OF run]) (rule set_take_subset)
  with i have "i \<notin> b_id ` set (saved fx)" by auto
  then show ?thesis
    by (simp add: promote_bookings[OF run] findById_foldl_updateBooking)
qed

section \<open>Seat deltas\<close>

lemma payAndConfirm_confirmed:
  assumes "payAndConfirm es rt eid n booking w = (w', fx, resp)"
    and "b \<in> set (saved fx)" and "bookingStatus b = Confirmed"
  shows "deltas fx = [(eid, n)] \<and> numberOfTickets b = numberOfTickets booking"
  using assms
  by (auto simp: payAndConfirm_def generateTransactionId_def Let_def
           split: if_splits prod.splits patchReply.splits)

lemma createBooking_confirmed:
  assumes eid: "reqEventId req = Some eid"
    and b: "b \<in> set (saved (effectsOf (createBooking es rt usr req w)))"
    and st: "bookingStatus b = Confirmed"
  shows "deltas (effectsOf (createBooking es rt usr req w)) = [(eid, numberOfTickets b)] \<and>
         reqNumberOfTickets req = Some (numberOfTickets b)"
proof -
  obtain w' fx resp where run: "createBooking es rt usr req w = (w', fx, resp)"
    by (cases "createBooking es rt usr req w") auto
  with b have mem: "b \<in> set (saved fx)"
    by (simp add: effectsOf_def)
  from run mem st eid obtain n ev fx' where
    pay: "payAndConfirm es rt eid n (newBooking rt usr ev n (reqPaymentMethod req)) w
            = (w', fx', resp)"
    and fx: "fx = HttpGetEvent eid # fx'" and n: "reqNumberOfTickets req = Some n"
    by (auto simp: createBooking_def Let_def split: if_splits prod.splits option.splits)
  from mem fx have "b \<in> set (saved fx')" by simp
  from payAndConfirm_confirmed[OF pay this st] fx run n show ?thesis
    by (simp add: effectsOf_def newBooking_def)
qed

lemma cancelBooking_confirmed_run:
  assumes found: "findById i (bookings w) = Some c"
    and allowed: "userId c = u_id usr \<or> u_role usr = ''admin''"
    and conf: "bookingStatus c = Confirmed"
    and future: "\<not> eventDate c < dateNow rt"
    and patch: "patchSeats es (ledger w) (eventId c) (- numberOfTickets c) = (l', reply)"
    and c': "c' = c\<lparr>bookingStatus := Cancelled,
                     paymentStatus := (if paymentStatus c = Completed then Refunded
                                       else paymentStatus c)\<rparr>"
    and w1: "w1 = w\<lparr>bookings := updateBooking c' (bookings w), ledger := l'\<rparr>"
    and call: "call = HttpPatchSeats (eventId c) (- numberOfTickets c) reply"
  shows "cancelBooking es rt usr i w =
           (case (case reply of
                    Rejected \<Rightarrow> (w1, [SaveBooking c', call,
                                       ConsoleError ''Failed to restore event seats:''])
                  | Resolved None \<Rightarrow> (w1, [SaveBooking c', call])
                  | Resolved (Some a) \<Rightarrow>
                      (case promoteWaitlistIfPossible es rt (eventId c) (Some a) w1 of
                         (w3, fx3) \<Rightarrow> (w3, [SaveBooking c', call] @ fx3)))
            of (w', fx) \<Rightarrow>
              (w', fx, (200, CancelledBody (bookingReference c) Cancelled (paymentStatus c')
                               (totalAmount c))))"
  using assms
  by (auto simp: cancelBooking_def restoreSeats_def Let_def totalAmount_def
           split: patchReply.splits option.splits prod.splits)

lemma promote_lookups:
  "lookups (snd (promoteWaitlistIfPossible es rt eid hint w)) = [eid]"
  by (auto simp: promoteWaitlistIfPossible_def Let_def lookups_append
           split: option.splits prod.splits dest: promoteLoop_lookups)

lemma updateBooking_same_id:
  "x \<in> set (updateBooking s bs) \<Longrightarrow> b_id x = b_id s \<Longrightarrow> x = s"
  by (auto simp: updateBooking_def split: if_splits)

lemma cancelBooking_ok_gates:
  assumes "findById i (bookings w) = Some c"
    and "fst (responseOf (cancelBooking es rt usr i w)) = 200"
  shows "(userId c = u_id usr \<or> u_role usr = ''admin'') \<and> \<not> eventDate c < dateNow rt"
  using assms
  by (auto simp: cancelBooking_def responseOf_def split: if_splits)

lemma cancelBooking_confirmed_deltas:
  assumes found: "findById i (bookings w) = Some c"
    and conf: "bookingStatus c = Confirmed"
    and ok: "fst (responseOf (cancelBooking es rt usr i w)) = 200"
  shows "deltas (effectsOf (cancelBooking es rt usr i w)) =
           (eventId c, - numberOfTickets c) #
           map (\<lambda>p. (eventId c, numberOfTickets p))
               (tl (saved (effectsOf (cancelBooking es rt usr i w))))"
proof -
  from cancelBooking_ok_gates[OF found ok]
  have allowed: "userId c = u_id usr \<or> u_role usr = ''admin''"
    and future: "\<not> eventDate c < dateNow rt" by simp_all
  obtain l' reply where
    patch: "patchSeats es (ledger w) (eventId c) (- numberOfTickets c) = (l', reply)"
    by (cases "patchSeats es (ledger w) (eventId c) (- numberOfTickets c)") auto
  note run = cancelBooking_confirmed_run[OF found allowed conf future patch refl refl refl]
  show ?thesis
  proof (cases reply)
    case Rejected
    with run show ?thesis by (simp add: effectsOf_def)
  next
    case (Resolved r)
    show ?thesis
    proof (cases r)
      case None
      with Resolved run show ?thesis by (simp add: effectsOf_def)
    next
      case (Some a)
      with Resolved run show ?thesis
        by (auto simp: effectsOf_def split: prod.splits dest: promote_deltas)
    qed
  qed
qed

lemma payAndConfirm_deltas:
  "set (deltas (fst (snd (payAndConfirm es rt eid n booking w)))) \<subseteq> {(eid, n)}"
  by (auto simp: payAndConfirm_def generateTransactionId_def Let_def
           split: if_splits prod.splits patchReply.splits)

lemma createBooking_deltas:
  assumes "reqEventId req = Some eid" and "reqNumberOfTickets req = Some n"
  shows "set (deltas (effectsOf (createBooking es rt usr req w))) \<subseteq> {(eid, n)}"
  using assms payAndConfirm_deltas[of es rt eid n _ w]
  by (auto simp: createBooking_def effectsOf_def Let_def split_beta
           split: if_splits option.splits)

lemma cancelBooking_unconfirmed_deltas:
  assumes "findById i (bookings w) = Some c" and "bookingStatus c \<noteq> Confirmed"
  shows "deltas (effectsOf (cancelBooking es rt usr i w)) = []"
  using assms
  by (simp add: cancelBooking_def effectsOf_def Let_def)

lemma promoteLoop_saved_tickets:
  "promoteLoop es rt eid seats cs w = (t, w', fx) \<Longrightarrow> p \<in> set (saved fx) \<Longrightarrow>
     numberOfTickets p \<in> numberOfTickets ` set cs"
proof (induction cs arbitrary: seats w t w' fx)
  case Nil
  then show ?case by simp
next
  case (Cons c cs)
  then show ?case
    by (fastforce simp: Let_def generateTransactionId_def saved_append
             split: if_splits prod.splits patchReply.splits)
qed

lemma promote_saved_tickets:
  assumes "promoteWaitlistIfPossible es rt eid hint w = (w', fx)" and "p \<in> set (saved fx)"
  shows "numberOfTickets p \<in> numberOfTickets ` set (bookings w)"
proof -
  from assms have "numberOfTickets p \<in> numberOfTickets ` set (waitlistedBookings eid (bookings w))"
    by (cases rule: promote_cases) (auto dest: promoteLoop_saved_tickets)
  then show ?thesis
    by (auto simp: waitlistedBookings_set)
qed

lemma promote_deltas_positive:
  assumes pos: "\<forall>x \<in> set (bookings w). 0 < numberOfTickets x"
    and d: "d \<in> set (deltas (snd (promoteWaitlistIfPossible es rt eid hint w)))"
  shows "0 < snd d"
proof -
  have run: "promoteWaitlistIfPossible es rt eid hint w =
      (fst (promoteWaitlistIfPossible es rt eid hint w),
       snd (promoteWaitlistIfPossible es rt eid hint w))" by simp
  from d obtain p where p: "p \<in> set (saved (snd (promoteWaitlistIfPossible es rt eid hint w)))"
    and dp: "d = (eid, numberOfTickets p)"
    by (auto simp: promote_deltas[OF run])
  from promote_saved_tickets[OF run p] pos dp show ?thesis by auto
qed

lemma promote_deltas_nth:
  assumes "k < length (saved (snd (promoteWaitlistIfPossible es rt eid hint w)))"
  shows "deltas (snd (promoteWaitlistIfPossible es rt eid hint w)) ! k =
           (eid, numberOfTickets (saved (snd (promoteWaitlistIfPossible es rt eid hint w)) ! k))"
  using assms by (simp add: promote_deltas[OF prod.collapse[symmetric]])

lemma createBooking_deltas_positive:
  assumes "reqEventId req = Some eid" and "reqNumberOfTickets req = Some n" and "0 < n"
    and "d \<in> set (deltas (effectsOf (createBooking es rt usr req w)))"
  shows "0 < snd d"
  using createBooking_deltas[OF assms(1,2), of es rt usr w] assms(3,4) by auto

lemma cancelBooking_confirmed_hd_negative:
  assumes "findById i (bookings w) = Some c" and "bookingStatus c = Confirmed"
    and "fst (responseOf (cancelBooking es rt usr i w)) = 200"
    and "0 < numberOfTickets c"
  shows "snd (hd (deltas (effectsOf (cancelBooking es rt usr i w)))) < 0"
  using cancelBooking_confirmed_deltas[OF assms(1,2,3)] assms(4) by simp

lemma cancelBooking_confirmed_tl_positive:
  assumes found: "findById i (bookings w) = Some c"
    and conf: "bookingStatus c = Confirmed"
    and ok: "fst (responseOf (cancelBooking es rt usr i w)) = 200"
    and pos: "\<forall>x \<in> set (bookings w). 0 < numberOfTickets x"
    and d: "d \<in> set (tl (deltas (effectsOf (cancelBooking es rt usr i w))))"
  shows "0 < snd d"
proof -
  from cancelBooking_ok_gates[OF found ok]
  have allowed: "userId c = u_id usr \<or> u_role usr = ''admin''"
    and future: "\<not> eventDate c < dateNow rt" by simp_all
  obtain l' reply where
    patch: "patchSeats es (ledger w) (eventId c) (- numberOfTickets c) = (l', reply)"
    by (cases "patchSeats es (ledger w) (eventId c) (- numberOfTickets c)") auto
  define c' where "c' = c\<lparr>bookingStatus := Cancelled,
                     paymentStatus := (if paymentStatus c = Completed then Refunded
                                       else paymentStatus c)\<rparr>"
  define w1 where "w1 = w\<lparr>bookings := updateBooking c' (bookings w), ledger := l'\<rparr>"
  note run = cancelBooking_confirmed_run[OF found allowed conf future patch c'_def w1_def refl]
  from findById_Some_id[OF found] pos have "0 < numberOfTickets c" by auto
  then have "0 < numberOfTickets c'" by (simp add: c'_def)
  with pos have pos1: "\<forall>x \<in> set (bookings w1). 0 < numberOfTickets x"
    by (auto simp: w1_def updateBooking_def)
  show ?thesis
  proof (cases reply)
    case Rejected
    with run d show ?thesis by (simp add: effectsOf_def)
  next
    case (Resolved r)
    show ?thesis
    proof (cases r)
      case None
      with Resolved run d show ?thesis by (simp add: effectsOf_def)
    next
      case (Some a)
      with Resolved run d
      have "d \<in> set (deltas (snd (promoteWaitlistIfPossible es rt (eventId c) (Some a) w1)))"
        by (auto simp: effectsOf_def split: prod.splits)
      with promote_deltas_positive[OF pos1] show ?thesis by blast
    qed
  qed
qed

text \<open>
  C1 (as the code has it). The body field is \<^verbatim>\<open>seatsToBook\<close>: the engine sends
  the booking's \<open>numberOfTickets\<close> itself to consume seats and its negation to return
  them, so for a positive ticket count the delta is positive on confirmation and
  negative on cancellation.
  \<^item> The create handler sends no delta other than \<open>numberOfTickets\<close> of the request,
    for the requested event, and for a positive count every delta it sends is positive;
    a booking that it saved as confirmed has exactly that one delta in the run.
  \<^item> In a promotion pass every saved document is confirmed, and the deltas of the pass
    are, in order, \<open>numberOfTickets\<close> of each saved document: positive for each saved
    document with a positive count, and all positive when every stored booking has a
    positive count.
  \<^item> A successful cancellation of a confirmed booking sends \<open>- numberOfTickets\<close> for
    the booking's event first, which is negative for a positive count; every further
    delta of the run belongs to a booking the following promotion pass saved, is
    \<open>numberOfTickets\<close> of it, and is positive when every stored booking has a positive
    count. Cancelling a booking that is not confirmed sends no delta.
\<close>

theorem seat_delta_signs:
  "(reqEventId req = Some eid \<and> reqNumberOfTickets req = Some n \<longrightarrow>
      set (deltas (effectsOf (createBooking es rt usr req w))) \<subseteq> {(eid, n)}) \<and>
   (reqEventId req = Some eid \<and> reqNumberOfTickets req = Some n \<and> 0 < n \<longrightarrow>
      (\<forall>d \<in> set (deltas (effectsOf (createBooking es rt usr req w))). 0 < snd d)) \<and>
   (reqEventId req = Some eid \<and>
    b \<in> set (saved (effectsOf (createBooking es rt usr req w))) \<and>
    bookingStatus b = Confirmed \<longrightarrow>
      deltas (effectsOf (createBooking es rt usr req w)) = [(eid, numberOfTickets b)]) \<and>
   deltas (snd (promoteWaitlistIfPossible es2 rt2 eid2 hint w2)) =
     map (\<lambda>p. (eid2, numberOfTickets p))
         (saved (snd (promoteWaitlistIfPossible es2 rt2 eid2 hint w2))) \<and>
   (\<forall>p \<in> set (saved (snd (promoteWaitlistIfPossible es2 rt2 eid2 hint w2))).
      bookingStatus p = Confirmed) \<and>
   (k < length (saved (snd (promoteWaitlistIfPossible es2 rt2 eid2 hint w2))) \<and>
    0 < numberOfTickets (saved (snd (promoteWaitlistIfPossible es2 rt2 eid2 hint w2)) ! k)
      \<longrightarrow>
      0 < snd (deltas (snd (promoteWaitlistIfPossible es2 rt2 eid2 hint w2)) ! k)) \<and>
   ((\<forall>x \<in> set (bookings w2). 0 < numberOfTickets x) \<longrightarrow>
      (\<forall>d \<in> set (deltas (snd (promoteWaitlistIfPossible es2 rt2 eid2 hint w2))).
         0 < snd d)) \<and>
   (findById i (bookings w3) = Some c \<and> bookingStatus c = Confirmed \<and>
    fst (responseOf (cancelBooking es3 rt3 usr3 i w3)) = 200 \<longrightarrow>
      deltas (effectsOf (cancelBooking es3 rt3 usr3 i w3)) =
        (eventId c, - numberOfTickets c) #
        map (\<lambda>p. (eventId c, numberOfTickets p))
            (tl (saved (effectsOf (cancelBooking es3 rt3 usr3 i w3))))) \<and>
   (findById i (bookings w3) = Some c \<and> bookingStatus c = Confirmed \<and>
    fst (responseOf (cancelBooking es3 rt3 usr3 i w3)) = 200 \<and> 0 < numberOfTickets c \<longrightarrow>
      snd (hd (deltas (effectsOf (cancelBooking es3 rt3 usr3 i w3)))) < 0) \<and>
   (findById i (bookings w3) = Some c \<and> bookingStatus c = Confirmed \<and>
    fst (responseOf (cancelBooking es3 rt3 usr3 i w3)) = 200 \<and>
    (\<forall>x \<in> set (bookings w3). 0 < numberOfTickets x) \<longrightarrow>
      (\<forall>d \<in> set (tl (deltas (effectsOf (cancelBooking es3 rt3 usr3 i w3)))). 0 < snd d)) \<and>
   (findById i (bookings w3) = Some c \<and> bookingStatus c \<noteq> Confirmed \<longrightarrow>
      deltas (effectsOf (cancelBooking es3 rt3 usr3 i w3)) = [])"
proof (intro conjI impI ballI)
  assume "reqEventId req = Some eid \<and> reqNumberOfTickets req = Some n"
  then show "set (deltas (effectsOf (createBooking es rt usr req w))) \<subseteq> {(eid, n)}"
    using createBooking_deltas by blast
next
  fix d
  assume "reqEventId req = Some eid \<and> reqNumberOfTickets req = Some n \<and> 0 < n"
    and "d \<in> set (deltas (effectsOf (createBooking es rt usr req w)))"
  then show "0 < snd d"
    using createBooking_deltas_positive by blast
next
  assume "reqEventId req = Some eid \<and>
    b \<in> set (saved (effectsOf (createBooking es rt usr req w))) \<and>
    bookingStatus b = Confirmed"
  then show "deltas (effectsOf (createBooking es rt usr req w)) = [(eid, numberOfTickets b)]"
    using createBooking_confirmed by blast
next
  show "deltas (snd (promoteWaitlistIfPossible es2 rt2 eid2 hint w2)) =
     map (\<lambda>p. (eid2, numberOfTickets p))
         (saved (snd (promoteWaitlistIfPossible es2 rt2 eid2 hint w2)))"
    by (rule promote_deltas[OF prod.collapse[symmetric]])
next
  fix p assume "p \<in> set (saved (snd (promoteWaitlistIfPossible es2 rt2 eid2 hint w2)))"
  then show "bookingStatus p = Confirmed"
    by (rule promote_saved_confirmed[OF prod.collapse[symmetric]])
next
  assume "k < length (saved (snd (promoteWaitlistIfPossible es2 rt2 eid2 hint w2))) \<and>
    0 < numberOfTickets (saved (snd (promoteWaitlistIfPossible es2 rt2 eid2 hint w2)) ! k)"
  then show "0 < snd (deltas (snd (promoteWaitlistIfPossible es2 rt2 eid2 hint w2)) ! k)"
    by (simp add: promote_deltas_nth)
next
  fix d
  assume "\<forall>x \<in> set (bookings w2). 0 < numberOfTickets x"
    and "d \<in> set (deltas (snd (promoteWaitlistIfPossible es2 rt2 eid2 hint w2)))"
  then show "0 < snd d"
    by (rule promote_deltas_positive)
next
  assume "findById i (bookings w3) = Some c \<and> bookingStatus c = Confirmed \<and>
    fst (responseOf (cancelBooking es3 rt3 usr3 i w3)) = 200"
  then show "deltas (effectsOf (cancelBooking es3 rt3 usr3 i w3)) =
        (eventId c, - numberOfTickets c) #
        map (\<lambda>p. (eventId c, numberOfTickets p))
            (tl (saved (effectsOf (cancelBooking es3 rt3 usr3 i w3))))"
    using cancelBooking_confirmed_deltas by blast
next
  assume "findById i (bookings w3) = Some c \<and> bookingStatus c = Confirmed \<and>
    fst (responseOf (cancelBooking es3 rt3 usr3 i w3)) = 200 \<and> 0 < numberOfTickets c"
  then show "snd (hd (deltas (effectsOf (cancelBooking es3 rt3 usr3 i w3)))) < 0"
    using cancelBooking_confirmed_hd_negative by blast
next
  fix d
  assume "findById i (bookings w3) = Some c \<and> bookingStatus c = Confirmed \<and>
    fst (responseOf (cancelBooking es3 rt3 usr3 i w3)) = 200 \<and>
    (\<forall>x \<in> set (bookings w3). 0 < numberOfTickets x)"
    and "d \<in> set (tl (deltas (effectsOf (cancelBooking es3 rt3 usr3 i w3))))"
  then show "0 < snd d"
    using cancelBooking_confirmed_tl_positive by blast
next
  assume "findById i (bookings w3) = Some c \<and> bookingStatus c \<noteq> Confirmed"
  then show "deltas (effectsOf (cancelBooking es3 rt3 usr3 i w3)) = []"
    using cancelBooking_unconfirmed_deltas by blast
qed

theorem seat_delta_signs_witness:
  "reqEventId (ticketRequest (Some 2) False) = Some ''e1'' \<and>
   reqNumberOfTickets (ticketRequest (Some 2) False) = Some 2 \<and> (0::int) < 2 \<and>
   saved (effectsOf (createBooking (scripted concert) rt0 alice
            (ticketRequest (Some 2) False) (world0 [Resolved (Some 3)] []))) =
     [(newBooking rt0 alice concert 2 None)
        \<lparr>paymentStatus := Completed, bookingStatus := Confirmed,
          transactionId := Some (TXN 10 5000)\<rparr>] \<and>
   deltas (effectsOf (createBooking (scripted concert) rt0 alice
            (ticketRequest (Some 2) False) (world0 [Resolved (Some 3)] []))) =
     [(''e1'', 2)] \<and>
   map numberOfTickets
     (bookings (world0 [Resolved (Some 2), Resolved (Some 0)]
                  [mkBooking ''b2'' 3 Waitlisted 2, mkBooking ''b3'' 2 Waitlisted 3])) =
     [3, 2] \<and>
   map bookingStatus
     (saved (snd (promoteWaitlistIfPossible (scripted concert) rt0 ''e1'' (Some 5)
            (world0 [Resolved (Some 2), Resolved (Some 0)]
               [mkBooking ''b2'' 3 Waitlisted 2, mkBooking ''b3'' 2 Waitlisted 3])))) =
     [Confirmed, Confirmed] \<and>
   map numberOfTickets
     (saved (snd (promoteWaitlistIfPossible (scripted concert) rt0 ''e1'' (Some 5)
            (world0 [Resolved (Some 2), Resolved (Some 0)]
               [mkBooking ''b2'' 3 Waitlisted 2, mkBooking ''b3'' 2 Waitlisted 3])))) =
     [3, 2] \<and>
   deltas (snd (promoteWaitlistIfPossible (scripted concert) rt0 ''e1'' (Some 5)
            (world0 [Resolved (Some 2), Resolved (Some 0)]
               [mkBooking ''b2'' 3 Waitlisted 2, mkBooking ''b3'' 2 Waitlisted 3]))) =
     [(''e1'', 3), (''e1'', 2)] \<and>
   0 < snd (deltas (snd (promoteWaitlistIfPossible (scripted concert) rt0 ''e1'' (Some 5)
            (world0 [Resolved (Some 2), Resolved (Some 0)]
               [mkBooking ''b2'' 3 Waitlisted 2, mkBooking ''b3'' 2 Waitlisted 3]))) ! 1) \<and>
   findById ''b1'' (bookings fullHouse) = Some (mkBooking ''b1'' 5 Confirmed 1) \<and>
   bookingStatus (mkBooking ''b1'' 5 Confirmed 1) = Confirmed \<and>
   0 < numberOfTickets (mkBooking ''b1'' 5 Confirmed 1) \<and>
   map numberOfTickets (bookings fullHouse) = [5, 3, 2] \<and>
   fst (responseOf (cancelBooking (scripted concert) rt0 alice ''b1'' fullHouse)) = 200 \<and>
   deltas (effectsOf (cancelBooking (scripted concert) rt0 alice ''b1'' fullHouse)) =
     [(''e1'', - 5), (''e1'', 3), (''e1'', 2)] \<and>
   snd (hd (deltas (effectsOf (cancelBooking (scripted concert) rt0 alice ''b1''
                                 fullHouse)))) < 0 \<and>
   findById ''b2'' (bookings fullHouse) = Some (mkBooking ''b2'' 3 Waitlisted 2) \<and>
   bookingStatus (mkBooking ''b2'' 3 Waitlisted 2) \<noteq> Confirmed \<and>
   deltas (effectsOf (cancelBooking (scripted concert) rt0 alice ''b2'' fullHouse)) = []"
  using seat_delta_signs
          [where req = "ticketRequest (Some 2) False" and eid = "''e1''" and n = 2
             and b = "(newBooking rt0 alice concert 2 None)
                        \<lparr>paymentStatus := Completed, bookingStatus := Confirmed,
                          transactionId := Some (TXN 10 5000)\<rparr>"
             and es = "scripted concert" and rt = rt0 and usr = alice
             and w = "world0 [Resolved (Some 3)] []"
             and ?es2.0 = "scripted concert" and ?rt2.0 = rt0 and ?eid2.0 = "''e1''"
             and hint = "Some 5" and k = 1
             and ?w2.0 = "world0 [Resolved (Some 2), Resolved (Some 0)]
                            [mkBooking ''b2'' 3 Waitlisted 2, mkBooking ''b3'' 2 Waitlisted 3]"
             and i = "''b1''" and ?w3.0 = fullHouse
             and c = "mkBooking ''b1'' 5 Confirmed 1"
             and ?es3.0 = "scripted concert" and ?rt3.0 = rt0 and ?usr3.0 = alice]
        seat_delta_signs
          [where i = "''b2''" and ?w3.0 = fullHouse
             and c = "mkBooking ''b2'' 3 Waitlisted 2"
             and ?es3.0 = "scripted concert" and ?rt3.0 = rt0 and ?usr3.0 = alice]
  by (simp add: run_defs fullHouse_def)

text \<open>
  C1 with the signs the other way round (negative on confirmation, positive on
  cancellation) fails: confirming 2 tickets sends \<open>+2\<close>, not \<open>-2\<close>, and cancelling
  the confirmed 5 tickets sends \<open>-5\<close> (followed by \<open>+3\<close> and \<open>+2\<close> for the two
  promoted bookings).
\<close>

theorem seat_delta_signs_counterexample:
  "fst (responseOf (createBooking (scripted concert) rt0 alice
          (ticketRequest (Some 2) False) (world0 [Resolved (Some 3)] []))) = 201 \<and>
   deltas (effectsOf (createBooking (scripted concert) rt0 alice
            (ticketRequest (Some 2) False) (world0 [Resolved (Some 3)] []))) =
     [(''e1'', 2)] \<and>
   deltas (effectsOf (createBooking (scripted concert) rt0 alice
            (ticketRequest (Some 2) False) (world0 [Resolved (Some 3)] []))) \<noteq>
     [(''e1'', - 2)] \<and>
   deltas (effectsOf (cancelBooking (scripted concert) rt0 alice ''b1'' fullHouse)) =
     [(''e1'', - 5), (''e1'', 3), (''e1'', 2)]"
  by (simp add: run_defs fullHouse_def)

section \<open>The promotion pass and cancellation\<close>

text \<open>
  C3. In a promotion pass over a collection with unique \<^verbatim>\<open>_id\<close>s:
  \<^item> the candidates are in ascending order of \<^verbatim>\<open>createdAt\<close>;
  \<^item> the documents the pass saved are an initial segment of the candidates, in that
    order;
  \<^item> when a candidate \<open>c\<close> asks for more tickets than the starting count less the
    tickets of the candidates before it, the pass saved at most those before it, and
    \<open>c\<close> and every candidate after it is stored as it was, still waitlisted; every
    candidate created after \<open>c\<close> is among these, whatever its own ticket count.
\<close>

theorem promotion_fifo_head_of_line:
  assumes ids: "distinct (map b_id (bookings w))"
    and ev: "getEvent es (ledger w) eid = Some ev"
    and cands: "cands = waitlistedBookings eid (bookings w)"
    and run: "run = promoteWaitlistIfPossible es rt eid hint w"
  shows "sorted (map createdAt cands) \<and>
         map b_id (saved (snd run)) = take (length (saved (snd run))) (map b_id cands) \<and>
         (cands = pre @ c # post \<and>
          startingSeats hint ev - sum_list (map numberOfTickets pre) < numberOfTickets c \<longrightarrow>
            length (saved (snd run)) \<le> length pre \<and>
            (\<forall>b \<in> set (c # post).
               b_id b \<notin> b_id ` set (saved (snd run)) \<and>
               bookingStatus b = Waitlisted \<and>
               findById (b_id b) (bookings (fst run)) = Some b) \<and>
            (\<forall>b \<in> set cands. createdAt c < createdAt b \<longrightarrow> b \<in> set post))"
proof (intro conjI impI)
  show srt: "sorted (map createdAt cands)"
    by (simp add: cands waitlistedBookings_sorted)
  have r: "promoteWaitlistIfPossible es rt eid hint w = (fst run, snd run)"
    by (simp add: run)
  show pre: "map b_id (saved (snd run)) = take (length (saved (snd run))) (map b_id cands)"
    using promote_saved_prefix[OF r] by (simp add: cands)
  assume blk: "cands = pre @ c # post \<and>
          startingSeats hint ev - sum_list (map numberOfTickets pre) < numberOfTickets c"
  then have split: "cands = pre @ c # post"
    and short: "startingSeats hint ev - sum_list (map numberOfTickets pre) < numberOfTickets c"
    by simp_all
  show len: "length (saved (snd run)) \<le> length pre"
    using promote_blocked[OF r ev split[unfolded cands] short] .
  have dc: "distinct (map b_id cands)"
    by (simp add: cands waitlistedBookings_distinct ids)
  have sub: "b_id ` set (saved (snd run)) \<subseteq> b_id ` set pre"
  proof -
    have "set (map b_id (saved (snd run))) \<subseteq> set (take (length pre) (map b_id cands))"
      by (subst pre) (rule set_take_subset_set_take[OF len])
    then show ?thesis by (simp add: split)
  qed
  show "\<forall>b \<in> set (c # post).
               b_id b \<notin> b_id ` set (saved (snd run)) \<and>
               bookingStatus b = Waitlisted \<and>
               findById (b_id b) (bookings (fst run)) = Some b"
  proof
    fix b assume b: "b \<in> set (c # post)"
    from dc split b have nopre: "b_id b \<notin> b_id ` set pre"
      by auto
    with sub have nosaved: "b_id b \<notin> b_id ` set (saved (snd run))"
      by blast
    from b have "b \<in> set cands"
      by (auto simp: split)
    then have inw: "b \<in> set (bookings w)" and wl: "bookingStatus b = Waitlisted"
      by (simp_all add: cands waitlistedBookings_set)
    have "findById (b_id b) (bookings (fst run)) = findById (b_id b) (bookings w)"
      by (simp add: promote_bookings[OF r] findById_foldl_updateBooking nosaved)
    with findById_distinct[OF ids inw] nosaved wl
    show "b_id b \<notin> b_id ` set (saved (snd run)) \<and> bookingStatus b = Waitlisted \<and>
          findById (b_id b) (bookings (fst run)) = Some b"
      by simp
  qed
  show "\<forall>b \<in> set cands. createdAt c < createdAt b \<longrightarrow> b \<in> set post"
  proof (intro ballI impI)
    fix b assume b: "b \<in> set cands" and later: "createdAt c < createdAt b"
    from srt split have "\<forall>x \<in> set pre. createdAt x \<le> createdAt c"
      by (simp add: sorted_append)
    with later have "b \<notin> set pre" by auto
    with b split later show "b \<in> set post" by auto
  qed
qed

theorem promotion_fifo_head_of_line_witness:
  "distinct (map b_id (bookings blockedQueue)) \<and>
   getEvent (scripted concert) (ledger blockedQueue) ''e1'' = Some concert \<and>
   waitlistedBookings ''e1'' (bookings blockedQueue) =
     [] @ mkBooking ''b2'' 6 Waitlisted 2 # [mkBooking ''b3'' 1 Waitlisted 3] \<and>
   startingSeats (Some 5) concert - sum_list (map numberOfTickets [])
     < numberOfTickets (mkBooking ''b2'' 6 Waitlisted 2) \<and>
   saved (snd (promoteWaitlistIfPossible (scripted concert) rt0 ''e1'' (Some 5) blockedQueue))
     = [] \<and>
   findById ''b3'' (bookings (fst (promoteWaitlistIfPossible (scripted concert) rt0 ''e1''
                                     (Some 5) blockedQueue))) =
     Some (mkBooking ''b3'' 1 Waitlisted 3)"
  using promotion_fifo_head_of_line
          [where w = blockedQueue and es = "scripted concert" and eid = "''e1''"
             and ev = concert and cands = "waitlistedBookings ''e1'' (bookings blockedQueue)"
             and run = "promoteWaitlistIfPossible (scripted concert) rt0 ''e1'' (Some 5)
                          blockedQueue"
             and rt = rt0 and hint = "Some 5" and pre = "[]"
             and c = "mkBooking ''b2'' 6 Waitlisted 2"
             and post = "[mkBooking ''b3'' 1 Waitlisted 3]"]
  by (simp add: run_defs blockedQueue_def)

text \<open>
  C5. Cancelling a confirmed booking (by its owner or an admin, before the event's
  date), whatever the seats endpoint replies to the restoration:
  \<^item> the answer is 200 with the cancelled projection, and the stored booking is the
    cancelled one at the end of the run;
  \<^item> when the restoration is rejected, the run is the save, the rejected call and the
    log line: nothing else, so no promotion pass and no event fetch;
  \<^item> when it resolves without an \<^verbatim>\<open>availableSeats\<close>, the run is the save and the call;
  \<^item> when it resolves with \<^verbatim>\<open>availableSeats = a\<close>, the run continues with the promotion
    pass for the booking's event and hint \<open>a\<close>;
  \<^item> so the run fetches the event (once, as the pass does) exactly in the last case.
\<close>

theorem cancel_survives_restoration_failure:
  assumes found: "findById i (bookings w) = Some c"
    and allowed: "userId c = u_id usr \<or> u_role usr = ''admin''"
    and conf: "bookingStatus c = Confirmed"
    and future: "\<not> eventDate c < dateNow rt"
    and patch: "patchSeats es (ledger w) (eventId c) (- numberOfTickets c) = (l', reply)"
    and c': "c' = c\<lparr>bookingStatus := Cancelled,
                     paymentStatus := (if paymentStatus c = Completed then Refunded
                                       else paymentStatus c)\<rparr>"
    and w1: "w1 = w\<lparr>bookings := updateBooking c' (bookings w), ledger := l'\<rparr>"
    and call: "call = HttpPatchSeats (eventId c) (- numberOfTickets c) reply"
    and run: "run = cancelBooking es rt usr i w"
  shows "responseOf run =
           (200, CancelledBody (bookingReference c) Cancelled (paymentStatus c')
                   (totalAmount c)) \<and>
         findById i (bookings (worldOf run)) = Some c' \<and>
         bookingStatus c' = Cancelled \<and>
         (reply = Rejected \<longrightarrow>
            worldOf run = w1 \<and>
            effectsOf run = [SaveBooking c', call,
                             ConsoleError ''Failed to restore event seats:'']) \<and>
         (reply = Resolved None \<longrightarrow>
            worldOf run = w1 \<and> effectsOf run = [SaveBooking c', call]) \<and>
         (reply = Resolved (Some a) \<longrightarrow>
            worldOf run = fst (promoteWaitlistIfPossible es rt (eventId c) (Some a) w1) \<and>
            effectsOf run = [SaveBooking c', call] @
                            snd (promoteWaitlistIfPossible es rt (eventId c) (Some a) w1)) \<and>
         lookups (effectsOf run) =
           (case reply of Resolved (Some a') \<Rightarrow> [eventId c] | _ \<Rightarrow> [])"
proof -
  note eq = cancelBooking_confirmed_run[OF found allowed conf future patch c' w1 call]
  from findById_Some_id[OF found] have i: "b_id c = i" by simp
  then have i': "b_id c' = i" by (simp add: c')
  have st: "bookingStatus c' = Cancelled" by (simp add: c')
  have kept1: "findById i (bookings w1) = Some c'"
    using findById_updateBooking_same[of c' "bookings w" c] found i'
    by (simp add: w1)
  have notwl: "i \<notin> b_id ` set (waitlistedBookings e (bookings w1))" for e
  proof
    assume "i \<in> b_id ` set (waitlistedBookings e (bookings w1))"
    then obtain x where x: "x \<in> set (updateBooking c' (bookings w))"
      and xi: "b_id x = i" and xw: "bookingStatus x = Waitlisted"
      by (auto simp: waitlistedBookings_set w1)
    from updateBooking_same_id[OF x] xi i' have "x = c'" by simp
    with xw st show False by simp
  qed
  have kept: "findById i (bookings (fst (promoteWaitlistIfPossible es rt e h w1))) = Some c'"
    for e h
    using promote_frame[OF prod.collapse[symmetric] notwl] kept1 by simp
  show ?thesis
  proof (cases reply)
    case Rejected
    with eq kept1 st show ?thesis
      by (simp add: run call worldOf_def effectsOf_def responseOf_def)
  next
    case (Resolved r)
    show ?thesis
    proof (cases r)
      case None
      with Resolved eq kept1 st show ?thesis
        by (simp add: run call worldOf_def effectsOf_def responseOf_def)
    next
      case (Some a0)
      with Resolved eq kept[of "eventId c" "Some a0"] st
        promote_lookups[of es rt "eventId c" "Some a0" w1]
      show ?thesis
        by (simp add: run call worldOf_def effectsOf_def responseOf_def lookups_append
              split: prod.splits)
    qed
  qed
qed

theorem cancel_survives_restoration_failure_witness:
  "findById ''b1'' (bookings (world0 [Rejected]
       [mkBooking ''b1'' 5 Confirmed 1, mkBooking ''b2'' 3 Waitlisted 2])) =
     Some (mkBooking ''b1'' 5 Confirmed 1) \<and>
   (userId (mkBooking ''b1'' 5 Confirmed 1) = u_id alice \<or> u_role alice = ''admin'') \<and>
   bookingStatus (mkBooking ''b1'' 5 Confirmed 1) = Confirmed \<and>
   \<not> eventDate (mkBooking ''b1'' 5 Confirmed 1) < dateNow rt0 \<and>
   patchSeats (scripted concert) [Rejected] ''e1'' (- 5) = ([], Rejected) \<and>
   responseOf (cancelBooking (scripted concert) rt0 alice ''b1''
                 (world0 [Rejected]
                    [mkBooking ''b1'' 5 Confirmed 1, mkBooking ''b2'' 3 Waitlisted 2])) =
     (200, CancelledBody ''BKb1'' Cancelled Refunded 100) \<and>
   map bookingStatus (bookings (worldOf (cancelBooking (scripted concert) rt0 alice ''b1''
                 (world0 [Rejected]
                    [mkBooking ''b1'' 5 Confirmed 1, mkBooking ''b2'' 3 Waitlisted 2])))) =
     [Cancelled, Waitlisted] \<and>
   lookups (effectsOf (cancelBooking (scripted concert) rt0 alice ''b1''
                 (world0 [Rejected]
                    [mkBooking ''b1'' 5 Confirmed 1, mkBooking ''b2'' 3 Waitlisted 2]))) = [] \<and>
   findById ''b1'' (bookings fullHouse) = Some (mkBooking ''b1'' 5 Confirmed 1) \<and>
   patchSeats (scripted concert) (ledger fullHouse) ''e1'' (- 5) =
     ([Resolved (Some 2), Resolved (Some 0)], Resolved (Some 5)) \<and>
   responseOf (cancelBooking (scripted concert) rt0 alice ''b1'' fullHouse) =
     (200, CancelledBody ''BKb1'' Cancelled Refunded 100) \<and>
   map bookingStatus (bookings (worldOf (cancelBooking (scripted concert) rt0 alice ''b1''
                                           fullHouse))) =
     [Cancelled, Confirmed, Confirmed] \<and>
   lookups (effectsOf (cancelBooking (scripted concert) rt0 alice ''b1'' fullHouse)) =
     [''e1'']"
  using cancel_survives_restoration_failure
          [where i = "''b1''"
             and w = "world0 [Rejected]
                        [mkBooking ''b1'' 5 Confirmed 1, mkBooking ''b2'' 3 Waitlisted 2]"
             and c = "mkBooking ''b1'' 5 Confirmed 1" and usr = alice and rt = rt0
             and es = "scripted concert" and l' = "[]" and reply = Rejected,
           OF _ _ _ _ _ refl refl refl refl]
        cancel_survives_restoration_failure
          [where i = "''b1''" and w = fullHouse
             and c = "mkBooking ''b1'' 5 Confirmed 1" and usr = alice and rt = rt0
             and es = "scripted concert" and l' = "[Resolved (Some 2), Resolved (Some 0)]"
             and reply = "Resolved (Some 5)" and a = 5,
           OF _ _ _ _ _ refl refl refl refl]
  by (simp add: run_defs fullHouse_def)




text \<open>
  C2 does not hold of the promotion loop, which saves the booking as confirmed before
  it sends the delta. Here a confirmed booking of 5 tickets is cancelled, the
  restoration resolves with 5 seats, and the seats endpoint then rejects the delta for
  the waitlisted booking of 3 tickets: that booking stays stored as confirmed, and the
  only delta the endpoint accepted is the restoration. (The create handler sends the
  delta first and saves only when it resolved.)
\<close>

theorem promotion_confirms_without_delta:
  "map bookingStatus (bookings (worldOf (cancelBooking (scripted concert) rt0 alice ''b1''
                                           outage))) = [Cancelled, Confirmed] \<and>
   deltas (effectsOf (cancelBooking (scripted concert) rt0 alice ''b1'' outage)) =
     [(''e1'', - 5), (''e1'', 3)] \<and>
   applied (effectsOf (cancelBooking (scripted concert) rt0 alice ''b1'' outage)) =
     [(''e1'', - 5)] \<and>
   fst (responseOf (cancelBooking (scripted concert) rt0 alice ''b1'' outage)) = 200"
  by (simp add: run_defs outage_def)

end
